theory Spec2Isabelle
  imports Main
begin

section \<open>The Zarr routes of the server: \<^verbatim>\<open>tiled/server/zarr.py\<close>\<close>

text \<open>
  The module serves arrays, tables and containers through the Zarr v2 protocol. It has one
  pure function, \<^verbatim>\<open>convert_chunks_for_zarr\<close>, and four request handlers. A handler either
  returns a \<^verbatim>\<open>Response\<close> or raises; both outcomes are values here. Python integers are
  \<open>int\<close>, strings are \<open>string\<close>, tuples and lists are lists.
\<close>

subsection \<open>Exceptions and status codes\<close>

text \<open>
  The Python exceptions that the code below, the built-ins it calls and the storage reader
  can raise. \<open>Exception\<close> stands for any exception that is none of the three named ones.
\<close>

datatype exn = IndexError | TypeError | ValueError | Exception string

text \<open>
  The \<^verbatim>\<open>detail\<close> of an \<^verbatim>\<open>HTTPException\<close>. The two messages of the block route are f-strings;
  the constructor keeps the values they interpolate (block index and shape) instead of the
  formatted text. \<open>ErrArg\<close> is \<^verbatim>\<open>err.args[0]\<close> of a caught exception.
\<close>

datatype detail =
    NoDetail
  | Inconsistent "int list" "int list"
  | OutOfRange "int list"
  | ErrArg exn

text \<open>
  How a handler ends when it does not return: with the \<^verbatim>\<open>HTTPException\<close> it raised, or with
  an exception nothing caught, which leaves the handler as it is.
\<close>

datatype error = HTTPException nat detail | Uncaught exn

definition HTTP_400_BAD_REQUEST :: nat where
  "HTTP_400_BAD_REQUEST = 400"

definition HTTP_404_NOT_FOUND :: nat where
  "HTTP_404_NOT_FOUND = 404"

definition HTTP_500_INTERNAL_SERVER_ERROR :: nat where
  "HTTP_500_INTERNAL_SERVER_ERROR = 500"

subsection \<open>List comprehensions whose element expression can raise\<close>

text \<open>
  \<^verbatim>\<open>[f(x) for x in xs]\<close> evaluates left to right; the first exception ends it.
\<close>

fun comprehension :: "('a \<Rightarrow> 'e + 'b) \<Rightarrow> 'a list \<Rightarrow> 'e + 'b list" where
  "comprehension f [] = Inr []"
| "comprehension f (x # xs) =
     (case f x of
        Inl e \<Rightarrow> Inl e
      | Inr y \<Rightarrow> (case comprehension f xs of Inl e \<Rightarrow> Inl e | Inr ys \<Rightarrow> Inr (y # ys)))"

subsection \<open>The chunk grid translation\<close>

definition ZARR_BLOCK_SIZE :: int where
  "ZARR_BLOCK_SIZE = 10000"

text \<open>
  The built-in \<^verbatim>\<open>max(*args)\<close> on integer arguments. With two or more arguments it is their
  maximum. With a single argument Python takes that argument for an iterable, and an integer
  is not one: \<^verbatim>\<open>TypeError\<close>. With no argument it is a \<^verbatim>\<open>TypeError\<close> as well.
\<close>

definition py_max :: "int list \<Rightarrow> exn + int" where
  "py_max args =
     (case args of
        [] \<Rightarrow> Inl TypeError
      | [x] \<Rightarrow> Inl TypeError
      | x # y # ys \<Rightarrow> Inr (fold max (y # ys) x))"

text \<open>
  \<^verbatim>\<open>return [min(ZARR_BLOCK_SIZE, max(*tc, 1)) for tc in tiled_chunks]\<close>:
  the arguments of \<^verbatim>\<open>max\<close> are the entries of \<open>tc\<close> followed by \<open>1\<close>.
\<close>

definition convert_chunks_for_zarr :: "int list list \<Rightarrow> exn + int list" where
  "convert_chunks_for_zarr tiled_chunks =
     comprehension (\<lambda>tc. map_sum id (min ZARR_BLOCK_SIZE) (py_max (tc @ [1]))) tiled_chunks"

subsection \<open>Strings\<close>

text \<open>
  \<^verbatim>\<open>s.split(sep)\<close> for a separator of one character: the pieces between the separators, in
  order; there is always at least one piece.
\<close>

fun str_split :: "char \<Rightarrow> string \<Rightarrow> string list" where
  "str_split sep [] = [[]]"
| "str_split sep (c # cs) =
     (if c = sep then [] # str_split sep cs
      else (case str_split sep cs of [] \<Rightarrow> [[c]] | p # ps \<Rightarrow> (c # p) # ps))"

text \<open>\<^verbatim>\<open>s.rstrip(ch)\<close> for one character: every trailing \<open>ch\<close> is removed.\<close>

fun str_rstrip :: "char \<Rightarrow> string \<Rightarrow> string" where
  "str_rstrip ch [] = []"
| "str_rstrip ch (c # cs) =
     (let r = str_rstrip ch cs in if r = [] \<and> c = ch then [] else c # r)"

text \<open>
  The built-in \<^verbatim>\<open>int(s)\<close> on a string in base ten, for ASCII text: white space around the
  number is dropped (tab, line feed, vertical tab, form feed, carriage return and space; the
  separators \<open>0x1C\<close> to \<open>0x1F\<close> are not white space for \<^verbatim>\<open>int\<close>), one sign may lead, and the
  digits may be grouped by single underscores between digits. Anything else is a
  \<^verbatim>\<open>ValueError\<close>, and so is a number of more than \<open>4300\<close> digits (the interpreter's default
  limit, \<^verbatim>\<open>sys.get_int_max_str_digits()\<close>; sign, underscores and white space do not count,
  leading zeros do). Python also reads the decimal digits of other scripts; a \<open>char\<close> here
  is a byte, and those are not modelled.
\<close>

definition is_space :: "char \<Rightarrow> bool" where
  "is_space c \<longleftrightarrow> c \<in> set [CHR 0x09, CHR 0x0A, CHR 0x0B, CHR 0x0C, CHR 0x0D, CHR 0x20]"

definition INT_MAX_STR_DIGITS :: nat where
  "INT_MAX_STR_DIGITS = 4300"

definition digit_of :: "char \<Rightarrow> nat option" where
  "digit_of c =
     map_of [(CHR ''0'', 0), (CHR ''1'', 1), (CHR ''2'', 2), (CHR ''3'', 3), (CHR ''4'', 4),
             (CHR ''5'', 5), (CHR ''6'', 6), (CHR ''7'', 7), (CHR ''8'', 8), (CHR ''9'', 9)] c"

fun digits :: "nat \<Rightarrow> bool \<Rightarrow> string \<Rightarrow> nat option" where
  "digits acc after_digit [] = (if after_digit then Some acc else None)"
| "digits acc after_digit (c # cs) =
     (case digit_of c of
        Some d \<Rightarrow> digits (10 * acc + d) True cs
      | None \<Rightarrow> if c = CHR ''_'' \<and> after_digit then digits acc False cs else None)"

definition str_strip :: "string \<Rightarrow> string" where
  "str_strip s = dropWhile is_space (rev (dropWhile is_space (rev s)))"

definition py_int :: "string \<Rightarrow> exn + int" where
  "py_int s =
     (let t = str_strip s;
          negative = (case t of [] \<Rightarrow> False | c # cs \<Rightarrow> c = CHR ''-'');
          unsigned = (case t of [] \<Rightarrow> [] | c # cs \<Rightarrow> if c = CHR ''-'' \<or> c = CHR ''+'' then cs else t)
      in case digits 0 False unsigned of
           None \<Rightarrow> Inl ValueError
         | Some n \<Rightarrow>
             if INT_MAX_STR_DIGITS < length (filter (\<lambda>c. c \<noteq> CHR ''_'') unsigned)
             then Inl ValueError
             else Inr (if negative then - int n else int n))"

subsection \<open>JSON documents and responses\<close>

text \<open>
  Every JSON body is \<^verbatim>\<open>json.dumps\<close> of a Python value; the model keeps the value that is
  serialised. An object keeps its keys in insertion order, as a Python \<^verbatim>\<open>dict\<close> does.
\<close>

datatype json =
    JNull
  | JInt int
  | JStr string
  | JArray "json list"
  | JObject "(string \<times> json) list"

text \<open>
  The content of a response: a JSON document, or the byte buffer of an encoded block. The
  buffer's type \<open>'b\<close> is left open.
\<close>

datatype 'b content = Json json | Buffer 'b

text \<open>\<^verbatim>\<open>Response(content, status_code=..., media_type=...)\<close>.\<close>

record 'b Response =
  content :: "'b content"
  status_code :: nat
  media_type :: "string option"

definition ZARR_BYTE_ORDER :: string where
  "ZARR_BYTE_ORDER = ''C''"

definition ZARR_CODEC_SPEC :: json where
  "ZARR_CODEC_SPEC =
     JObject [(''blocksize'', JInt 0), (''clevel'', JInt 5), (''cname'', JStr ''lz4''),
              (''id'', JStr ''blosc''), (''shuffle'', JInt 1)]"

subsection \<open>Arrays\<close>

text \<open>
  A dense array is its shape and its elements by index. Only the indices inside the shape
  matter. \<open>in_bounds\<close> says that an index has one coordinate per axis, each inside the axis.
\<close>

record 'a ndarray =
  nd_shape :: "int list"
  nd_item :: "int list \<Rightarrow> 'a"

definition in_bounds :: "int list \<Rightarrow> int list \<Rightarrow> bool" where
  "in_bounds shp idx = list_all2 (\<lambda>i n. 0 \<le> i \<and> i < n) idx shp"

text \<open>
  A sparse array (the \<^verbatim>\<open>sparse\<close> package's \<^verbatim>\<open>SparseArray\<close>) stores the elements that are not
  zero by their coordinates; \<^verbatim>\<open>todense()\<close> fills the rest with zero.
\<close>

record 'a coo =
  coo_shape :: "int list"
  coo_data :: "(int list \<times> 'a) list"

definition todense :: "'a::zero coo \<Rightarrow> 'a ndarray" where
  "todense s =
     \<lparr>nd_shape = coo_shape s,
      nd_item = (\<lambda>idx. case map_of (coo_data s) idx of Some v \<Rightarrow> v | None \<Rightarrow> 0)\<rparr>"

text \<open>What the storage reader returns: a dense or a sparse array.\<close>

datatype 'a array_value = NDArray "'a ndarray" | SparseArray "'a coo"

text \<open>
  \<^verbatim>\<open>np.pad(array, [(0, p) for p in padding_size], mode="constant")\<close>: \<open>p\<close> zeros are appended
  along each axis. The widths must make an array of signed integers: a width of \<open>2^63\<close> or
  more does not, and is a \<^verbatim>\<open>TypeError\<close>. numpy takes one pair per axis; a single pair is
  broadcast to every axis, and any other number of pairs that is not the number of axes is
  a \<^verbatim>\<open>ValueError\<close>. The handler calls it with a list of non-negative widths whose sum is
  positive, so never with the empty list. The memory that the padded array takes is not
  modelled.
\<close>

definition np_pad :: "'a::zero ndarray \<Rightarrow> int list \<Rightarrow> exn + 'a ndarray" where
  "np_pad a pads =
     (let ndim = length (nd_shape a);
          widths = (if length pads = 1 then replicate ndim (hd pads) else pads)
      in if list_ex (\<lambda>p. 2 ^ 63 \<le> p) pads then Inl TypeError
         else if length widths \<noteq> ndim then Inl ValueError
         else Inr \<lparr>nd_shape = map2 (+) (nd_shape a) widths,
                   nd_item = (\<lambda>idx. if in_bounds (nd_shape a) idx then nd_item a idx else 0)\<rparr>)"

subsection \<open>Entries\<close>

text \<open>
  Modelled from the spec: \<^verbatim>\<open>StructureFamily\<close> is declared in \<^verbatim>\<open>tiled.structures.core\<close>, not
  in this module. These are the families the module names (the spec's structure kinds,
  where a structured array is an \<open>array\<close> with a structured data type). The \<^verbatim>\<open>SecureEntry\<close>
  dependency of each route admits only families of this list, so a handler's body runs on
  no other.
\<close>

datatype StructureFamily = array | sparse | table | container

text \<open>
  Modelled from the spec: the data types are declared in \<^verbatim>\<open>tiled.structures.array\<close>. A data
  type is a primitive one, of which the module reads \<^verbatim>\<open>to_numpy_str()\<close> (the string kept
  here), or a \<^verbatim>\<open>StructDtype\<close>, an ordered list of named fields, of which it reads the
  \<^verbatim>\<open>fields\<close> and their \<^verbatim>\<open>name\<close>.
\<close>

datatype Field = MkField (field_name: string) (field_dtype: string)

datatype DataType = BuiltinDtype string | StructDtype "Field list"

definition isinstance_StructDtype :: "DataType \<Rightarrow> bool" where
  "isinstance_StructDtype dt = (case dt of StructDtype fs \<Rightarrow> True | BuiltinDtype s \<Rightarrow> False)"

text \<open>The \<^verbatim>\<open>fields\<close> of a \<^verbatim>\<open>StructDtype\<close>; the module reads them of no other data type.\<close>

definition fields_of :: "DataType \<Rightarrow> Field list" where
  "fields_of dt = (case dt of StructDtype fs \<Rightarrow> fs | BuiltinDtype s \<Rightarrow> [])"

text \<open>
  \<^verbatim>\<open>entry.metadata\<close> is a method in some versions and a property in others; either way it
  gives a \<^verbatim>\<open>dict\<close>. Calling the property's \<^verbatim>\<open>dict\<close> raises \<^verbatim>\<open>TypeError\<close>.
\<close>

datatype MetadataAttr = AsMethod "(string \<times> json) list" | AsProperty "(string \<times> json) list"

definition call_metadata :: "MetadataAttr \<Rightarrow> exn + (string \<times> json) list" where
  "call_metadata m = (case m of AsMethod d \<Rightarrow> Inr d | AsProperty d \<Rightarrow> Inl TypeError)"

definition metadata_attr :: "MetadataAttr \<Rightarrow> (string \<times> json) list" where
  "metadata_attr m = (case m of AsMethod d \<Rightarrow> d | AsProperty d \<Rightarrow> d)"

text \<open>\<^verbatim>\<open>slice(start, stop)\<close>.\<close>

type_synonym slice = "int \<times> int"

text \<open>
  Modelled from the spec: the entry is an adapter of the storage layer, resolved by the
  \<^verbatim>\<open>SecureEntry\<close> dependency. The record holds what the handlers read of it: its family; of \<^verbatim>\<open>entry.structure()\<close> the data type,
  chunks and shape (arrays) and the columns (tables); the keys of a container, through
  \<^verbatim>\<open>keys_range(offset, limit)\<close> where the entry has that attribute and through \<^verbatim>\<open>keys()\<close>;
  the metadata; and \<^verbatim>\<open>read(slice=...)\<close>, the storage reader, which returns an array or raises.
  A field that an entry's family does not have is not read for that family.
\<close>

record 'a Entry =
  structure_family :: StructureFamily
  data_type :: DataType
  chunks :: "int list list"
  shape :: "int list"
  columns :: "string list"
  keys_range :: "(nat \<Rightarrow> nat option \<Rightarrow> string list) option"
  keys :: "string list"
  metadata :: MetadataAttr
  read :: "slice list \<Rightarrow> exn + 'a array_value"

subsection \<open>The metadata routes\<close>

text \<open>
  Each handler is modelled by its body, on the entry that the \<^verbatim>\<open>SecureEntry\<close> dependency
  resolved.

  \<^verbatim>\<open>get_zarr_group_metadata\<close> (\<^verbatim>\<open>.zgroup\<close>): an array that is not structured answers
  \<^verbatim>\<open>.zarray\<close> instead.
\<close>

definition get_zarr_group_metadata :: "'a Entry \<Rightarrow> error + 'b Response" where
  "get_zarr_group_metadata entry =
     (if structure_family entry = array \<and> \<not> isinstance_StructDtype (data_type entry)
      then Inl (HTTPException HTTP_404_NOT_FOUND NoDetail)
      else Inr \<lparr>content = Json (JObject [(''zarr_format'', JInt 2)]),
                status_code = 200, media_type = None\<rparr>)"

text \<open>
  \<^verbatim>\<open>get_zarr_array_metadata\<close> (\<^verbatim>\<open>.zarray\<close>). The check for a structured data type stands
  before the \<^verbatim>\<open>try\<close>; an exception inside the \<^verbatim>\<open>try\<close> becomes status 500 with
  \<^verbatim>\<open>err.args[0]\<close> as detail.
\<close>

definition get_zarr_array_metadata :: "'a Entry \<Rightarrow> error + 'b Response" where
  "get_zarr_array_metadata entry =
     (case data_type entry of
        StructDtype fs \<Rightarrow> Inl (HTTPException HTTP_404_NOT_FOUND NoDetail)
      | BuiltinDtype numpy_str \<Rightarrow>
          (case convert_chunks_for_zarr (chunks entry) of
             Inl err \<Rightarrow> Inl (HTTPException HTTP_500_INTERNAL_SERVER_ERROR (ErrArg err))
           | Inr zarr_chunks \<Rightarrow>
               Inr \<lparr>content = Json (JObject
                       [(''chunks'', JArray (map JInt zarr_chunks)),
                        (''compressor'', ZARR_CODEC_SPEC),
                        (''dtype'', JStr numpy_str),
                        (''fill_value'', JInt 0),
                        (''filters'', JNull),
                        (''order'', JStr ZARR_BYTE_ORDER),
                        (''shape'', JArray (map JInt (shape entry))),
                        (''zarr_format'', JInt 2)]),
                    status_code = 200, media_type = None\<rparr>))"

text \<open>
  \<^verbatim>\<open>get_zarr_attrs\<close> (\<^verbatim>\<open>.zattrs\<close>): \<^verbatim>\<open>entry.metadata()\<close> is tried first; on \<^verbatim>\<open>TypeError\<close> the
  attribute itself is taken.
\<close>

definition get_zarr_attrs :: "'a Entry \<Rightarrow> error + 'b Response" where
  "get_zarr_attrs entry =
     (if structure_family entry = array \<and> \<not> isinstance_StructDtype (data_type entry)
      then Inl (HTTPException HTTP_404_NOT_FOUND NoDetail)
      else
        (case (case call_metadata (metadata entry) of
                 Inr d \<Rightarrow> Inr d
               | Inl e \<Rightarrow> if e = TypeError then Inr (metadata_attr (metadata entry)) else Inl e) of
           Inl e \<Rightarrow> Inl (Uncaught e)
         | Inr metadata_dict \<Rightarrow>
             Inr \<lparr>content = Json (JObject metadata_dict), status_code = 200,
                  media_type = Some ''application/json''\<rparr>))"

subsection \<open>The listing and block route\<close>

text \<open>
  The slices of the array that the requested block covers, one per dimension:
  \<^verbatim>\<open>slice(i * c, (i + 1) * c) for i, c in zip(zarr_block_indx, zarr_block_spec)\<close>.
\<close>

definition block_slices :: "int list \<Rightarrow> int list \<Rightarrow> slice list" where
  "block_slices zarr_block_indx zarr_block_spec =
     map (\<lambda>(i, c). (i * c, (i + 1) * c)) (zip zarr_block_indx zarr_block_spec)"

text \<open>\<^verbatim>\<open>max(0, sl.stop - sh) for sl, sh in zip(block_slices, entry.structure().shape)\<close>.\<close>

definition padding_size :: "slice list \<Rightarrow> int list \<Rightarrow> int list" where
  "padding_size slices shp = map (\<lambda>(sl, sh). max 0 (snd sl - sh)) (zip slices shp)"

definition densify :: "'a::zero array_value \<Rightarrow> 'a ndarray" where
  "densify v = (case v of SparseArray s \<Rightarrow> todense s | NDArray a \<Rightarrow> a)"

text \<open>
  Reading and padding the block (from the slices to \<^verbatim>\<open>np.pad\<close>). The first component of
  the result lists the calls of the storage reader, each by the slices it was given. The
  timing of the read is recorded in the request's metrics; the metrics are left out.
\<close>

definition read_block ::
  "'a::zero Entry \<Rightarrow> int list \<Rightarrow> int list \<Rightarrow> slice list list \<times> (error + 'a ndarray)" where
  "read_block entry zarr_block_indx zarr_block_spec =
     (let slices = block_slices zarr_block_indx zarr_block_spec in
      case read entry slices of
        Inl e \<Rightarrow>
          ([slices],
           Inl (if e = IndexError
                then HTTPException HTTP_400_BAD_REQUEST (OutOfRange zarr_block_indx)
                else Uncaught e))
      | Inr v \<Rightarrow>
          (let dense = densify v;
               pads = padding_size slices (shape entry)
           in if sum_list pads > 0
              then (case np_pad dense pads of
                      Inl e \<Rightarrow> ([slices], Inl (Uncaught e))
                    | Inr padded \<Rightarrow> ([slices], Inr padded))
              else ([slices], Inr dense)))"

text \<open>
  Encoding: \<^verbatim>\<open>zarr_codec.encode(array)\<close>, and \<^verbatim>\<open>array.tobytes(order="A")\<close> when the codec's
  result is not \<^verbatim>\<open>bytes\<close> (\<open>None\<close> here). Codec and \<^verbatim>\<open>tobytes\<close> are parameters, taken
  as functions that return. The \<^verbatim>\<open>astype\<close> before it changes the layout in memory, not
  the elements.
\<close>

definition encode_block :: "('a ndarray \<Rightarrow> 'b option) \<Rightarrow> ('a ndarray \<Rightarrow> 'b) \<Rightarrow> 'a ndarray \<Rightarrow> 'b" where
  "encode_block zarr_codec_encode tobytes a =
     (case zarr_codec_encode a of Some buf \<Rightarrow> buf | None \<Rightarrow> tobytes a)"

definition parse_block :: "string \<Rightarrow> exn + int list" where
  "parse_block block = comprehension py_int (str_split CHR '','' block)"

text \<open>
  \<^verbatim>\<open>get_zarr_array\<close>: the listing of a container, a table or a structured array, or one block
  of an array. The arguments are the codec, \<^verbatim>\<open>str(request.url)\<close>, the \<^verbatim>\<open>block\<close> query
  parameter and the entry. The result is the list of calls of the storage reader and the
  handler's outcome. The last \<^verbatim>\<open>elif\<close> of the source tests for the families \<open>array\<close> and
  \<open>sparse\<close>, the only ones left at that point.
\<close>

definition get_zarr_array ::
  "('a::zero ndarray \<Rightarrow> 'b option) \<Rightarrow> ('a ndarray \<Rightarrow> 'b) \<Rightarrow> string \<Rightarrow> string option \<Rightarrow> 'a Entry
     \<Rightarrow> slice list list \<times> (error + 'b Response)" where
  "get_zarr_array zarr_codec_encode tobytes request_url block entry =
     (let url = str_rstrip CHR ''/'' (hd (str_split CHR ''?'' request_url)) in
      if structure_family entry = container then
        (let ks = (case keys_range entry of Some f \<Rightarrow> f 0 None | None \<Rightarrow> keys entry) in
         ([], Inr \<lparr>content = Json (JArray (map (\<lambda>key. JStr (url @ ''/'' @ key)) ks)),
                   status_code = 200, media_type = Some ''application/json''\<rparr>))
      else if structure_family entry = table then
        ([], Inr \<lparr>content = Json (JArray (map (\<lambda>key. JStr (url @ ''/'' @ key)) (columns entry))),
                  status_code = 200, media_type = Some ''application/json''\<rparr>)
      else if structure_family entry = array \<and> isinstance_StructDtype (data_type entry) then
        ([], Inr \<lparr>content = Json (JArray (map (\<lambda>f. JStr (url @ ''/'' @ field_name f))
                                              (fields_of (data_type entry)))),
                  status_code = 200, media_type = Some ''application/json''\<rparr>)
      else
        (case block of
           None \<Rightarrow>
             ([], Inr \<lparr>content = Json (JObject []), status_code = 200, media_type = None\<rparr>)
         | Some b \<Rightarrow>
             (case parse_block b of
                Inl e \<Rightarrow> ([], Inl (Uncaught e))
              | Inr zarr_block_indx \<Rightarrow>
                  (case convert_chunks_for_zarr (chunks entry) of
                     Inl e \<Rightarrow> ([], Inl (Uncaught e))
                   | Inr zarr_block_spec \<Rightarrow>
                       if \<not> (zarr_block_spec = [] \<and> zarr_block_indx = [0])
                          \<and> length zarr_block_spec \<noteq> length zarr_block_indx
                       then ([], Inl (HTTPException HTTP_400_BAD_REQUEST
                                        (Inconsistent zarr_block_indx (shape entry))))
                       else
                         (case read_block entry zarr_block_indx zarr_block_spec of
                            (calls, Inl e) \<Rightarrow> (calls, Inl e)
                          | (calls, Inr a) \<Rightarrow>
                              (calls,
                               Inr \<lparr>content = Buffer (encode_block zarr_codec_encode tobytes a),
                                    status_code = 200, media_type = None\<rparr>))))))"

subsection \<open>A storage reader that slices as numpy does\<close>

text \<open>
  Modelled from the spec: the storage reader is an external collaborator, of which the
  module only has the call. \<open>storage_read a\<close> is a reader that returns exactly the requested
  slice of the logical array \<open>a\<close>, clipped to its shape, as basic slicing of a numpy array
  does: a bound is clipped to the axis (\<open>clip\<close>, the rule of \<^verbatim>\<open>slice.indices\<close>), axes
  without a slice are kept whole, and more slices than axes are an \<^verbatim>\<open>IndexError\<close>.
\<close>

definition clip :: "int \<Rightarrow> int \<Rightarrow> int" where
  "clip n x = (if x < 0 then max 0 (x + n) else min x n)"

definition slice_shape :: "int list \<Rightarrow> slice list \<Rightarrow> int list" where
  "slice_shape shp slices =
     map (\<lambda>(n, sl). max 0 (clip n (snd sl) - clip n (fst sl))) (zip shp slices)
       @ drop (length slices) shp"

definition storage_read :: "'a ndarray \<Rightarrow> slice list \<Rightarrow> exn + 'a array_value" where
  "storage_read a slices =
     (if length slices > length (nd_shape a) then Inl IndexError
      else Inr (NDArray
        \<lparr>nd_shape = slice_shape (nd_shape a) slices,
         nd_item = (\<lambda>idx. nd_item a
            (map (\<lambda>((n, sl), i). clip n (fst sl) + i) (zip (zip (nd_shape a) slices) idx)
               @ drop (length slices) idx))\<rparr>))"

subsection \<open>Entries that serve blocks, and example data\<close>

text \<open>
  The entries that reach the block branch of \<^verbatim>\<open>get_zarr_array\<close>: sparse arrays, and arrays
  whose data type is not structured.
\<close>

definition ArrayLike :: "'a Entry \<Rightarrow> bool" where
  "ArrayLike entry \<longleftrightarrow>
     structure_family entry = sparse
     \<or> (structure_family entry = array \<and> \<not> isinstance_StructDtype (data_type entry))"

text \<open>The elements of an array in row-major order; it stands for a byte layout in examples.\<close>

definition row_major :: "'a ndarray \<Rightarrow> 'a list" where
  "row_major a = map (nd_item a) (product_lists (map (\<lambda>n. [0..n - 1]) (nd_shape a)))"

text \<open>
  A one-dimensional array of 25 integers, \<open>1, 2, ..., 25\<close>, and an entry that stores it in
  chunks of 10, 10 and 5.
\<close>

definition array_25 :: "int ndarray" where
  "array_25 = \<lparr>nd_shape = [25], nd_item = (\<lambda>idx. case idx of [i] \<Rightarrow> i + 1 | _ \<Rightarrow> 0)\<rparr>"

definition entry_25 :: "int Entry" where
  "entry_25 =
     \<lparr>structure_family = array, data_type = BuiltinDtype ''<i8'',
      chunks = [[10, 10, 5]], shape = [25], columns = [],
      keys_range = None, keys = [], metadata = AsMethod [],
      read = storage_read array_25\<rparr>"

text \<open>A zero-dimensional array (a scalar) that holds \<open>7\<close>.\<close>

definition scalar_7 :: "int ndarray" where
  "scalar_7 = \<lparr>nd_shape = [], nd_item = (\<lambda>idx. 7)\<rparr>"

text \<open>
  An empty one-dimensional array (no index lies inside its shape), and two entries for it:
  one whose chunk specification has the single entry \<open>0\<close> for the dimension, and one whose
  chunk specification has no entry for it.
\<close>

definition array_0 :: "int ndarray" where
  "array_0 = \<lparr>nd_shape = [0], nd_item = (\<lambda>idx. 1)\<rparr>"

definition entry_0 :: "int Entry" where
  "entry_0 = entry_25\<lparr>chunks := [[0]], shape := [0], read := storage_read array_0\<rparr>"

definition entry_no_chunks :: "int Entry" where
  "entry_no_chunks = entry_25\<lparr>chunks := [[]], shape := [0], read := storage_read array_0\<rparr>"

section \<open>Properties\<close>

subsection \<open>Comprehensions\<close>

lemma comprehension_total:
  "(\<And>x. x \<in> set xs \<Longrightarrow> f x = Inr (g x)) \<Longrightarrow> comprehension f xs = Inr (map g xs)"
  by (induction xs) simp_all

lemma comprehension_Inr_nth:
  "comprehension f xs = Inr ys \<Longrightarrow> k < length xs \<Longrightarrow> f (xs ! k) = Inr (ys ! k)"
proof (induction xs arbitrary: ys k)
  case Nil
  then show ?case by simp
next
  case (Cons x xs)
  then show ?case by (cases k) (auto split: sum.splits)
qed

subsection \<open>The chunk grid translation\<close>

lemma fold_max_Max:
  "fold max (ys :: int list) x = Max (insert x (set ys))"
proof (induction ys arbitrary: x)
  case Nil
  then show ?case by simp
next
  case (Cons y ys)
  have "Max (insert (max y x) (set ys)) = Max (insert x (insert y (set ys)))"
  proof (cases "set ys = {}")
    case True
    then show ?thesis by (simp add: max.commute)
  next
    case False
    then show ?thesis
      by (simp add: max.commute max.left_commute max.assoc)
  qed
  with Cons show ?case by simp
qed

lemma py_max_floor:
  assumes "tc \<noteq> []"
  shows "py_max (tc @ [1]) = Inr (max (Max (set tc)) 1)"
proof -
  from assms obtain x xs where tc: "tc = x # xs" by (cases tc) auto
  have "py_max (tc @ [1]) = Inr (fold max (xs @ [1]) x)"
    unfolding tc py_max_def by (cases xs) simp_all
  also have "fold max (xs @ [1]) x = Max (insert x (set (xs @ [1])))"
    by (rule fold_max_Max)
  also have "insert x (set (xs @ [1])) = insert 1 (set tc)"
    unfolding tc by auto
  also have "Max (insert 1 (set tc)) = max 1 (Max (set tc))"
    using assms by (intro Max_insert) simp_all
  finally show ?thesis by (simp only: max.commute)
qed

lemma convert_chunks_for_zarr_Inr:
  assumes "\<forall>tc \<in> set tiled_chunks. tc \<noteq> []"
  shows "convert_chunks_for_zarr tiled_chunks =
     Inr (map (\<lambda>tc. min ZARR_BLOCK_SIZE (max (Max (set tc)) 1)) tiled_chunks)"
  unfolding convert_chunks_for_zarr_def
proof (rule comprehension_total)
  fix tc assume "tc \<in> set tiled_chunks"
  with assms have "tc \<noteq> []" by blast
  then have "py_max (tc @ [1]) = Inr (max (Max (set tc)) 1)"
    by (rule py_max_floor)
  then show "map_sum id (min ZARR_BLOCK_SIZE) (py_max (tc @ [1])) =
      Inr (min ZARR_BLOCK_SIZE (max (Max (set tc)) 1))"
    by (simp only: map_sum.simps)
qed

lemma block_size_bounds:
  "1 \<le> min ZARR_BLOCK_SIZE (max m 1)" "min ZARR_BLOCK_SIZE (max m 1) \<le> ZARR_BLOCK_SIZE"
  by (simp_all add: ZARR_BLOCK_SIZE_def)

text \<open>
  C2. For every chunk specification with at least one entry in each dimension the translation
  returns a value (it does not raise), and the value of dimension \<open>i\<close> is
  \<open>min(ZARR_BLOCK_SIZE, max(entries of dimension i, 1))\<close>; every returned value lies between
  \<open>1\<close> and \<open>ZARR_BLOCK_SIZE\<close>.
\<close>

theorem convert_chunks_for_zarr_total_bounded:
  assumes "\<forall>tc \<in> set tiled_chunks. tc \<noteq> []"
  shows "\<exists>spec. convert_chunks_for_zarr tiled_chunks = Inr spec
           \<and> length spec = length tiled_chunks
           \<and> (\<forall>i < length tiled_chunks.
                 spec ! i = min ZARR_BLOCK_SIZE (max (Max (set (tiled_chunks ! i))) 1))
           \<and> (\<forall>v \<in> set spec. 1 \<le> v \<and> v \<le> ZARR_BLOCK_SIZE)"
proof (intro exI conjI)
  let ?g = "\<lambda>tc. min ZARR_BLOCK_SIZE (max (Max (set tc)) 1)"
  show "convert_chunks_for_zarr tiled_chunks = Inr (map ?g tiled_chunks)"
    using assms by (rule convert_chunks_for_zarr_Inr)
  show "length (map ?g tiled_chunks) = length tiled_chunks"
    by simp
  show "\<forall>i < length tiled_chunks. map ?g tiled_chunks ! i = ?g (tiled_chunks ! i)"
    by simp
  show "\<forall>v \<in> set (map ?g tiled_chunks). 1 \<le> v \<and> v \<le> ZARR_BLOCK_SIZE"
  proof
    fix v assume "v \<in> set (map ?g tiled_chunks)"
    then obtain tc where "v = ?g tc" by auto
    then show "1 \<le> v \<and> v \<le> ZARR_BLOCK_SIZE"
      using block_size_bounds [of "Max (set tc)"] by simp
  qed
qed

theorem convert_chunks_for_zarr_total_bounded_witness:
  "convert_chunks_for_zarr [[10, 10, 5], [20000], [0]] = Inr [10, 10000, 1]"
proof -
  have "\<forall>tc \<in> set [[10, 10, 5], [20000], [0 :: int]]. tc \<noteq> []" by simp
  from convert_chunks_for_zarr_total_bounded [OF this]
  obtain spec where s: "convert_chunks_for_zarr [[10, 10, 5], [20000], [0]] = Inr spec"
    and l: "length spec = 3"
    and n: "\<forall>i < 3. spec ! i =
        min ZARR_BLOCK_SIZE (max (Max (set ([[10, 10, 5], [20000], [0 :: int]] ! i))) 1)"
    by auto
  from n have "spec ! 0 = 10" "spec ! 1 = 10000" "spec ! 2 = 1"
    by (simp_all add: ZARR_BLOCK_SIZE_def)
  with l have "spec = [10, 10000, 1]"
    by (auto simp: length_Suc_conv numeral_3_eq_3)
  with s show ?thesis by simp
qed

subsection \<open>Evaluation on concrete inputs\<close>

lemmas parse_defs =
  parse_block_def py_int_def str_strip_def is_space_def digit_of_def INT_MAX_STR_DIGITS_def

lemmas convert_defs = convert_chunks_for_zarr_def py_max_def ZARR_BLOCK_SIZE_def

lemmas block_defs =
  read_block_def block_slices_def padding_size_def densify_def np_pad_def in_bounds_def
  storage_read_def slice_shape_def clip_def encode_block_def row_major_def Let_def

lemma ArrayLike_entry_25: "ArrayLike entry_25"
  by (simp add: ArrayLike_def entry_25_def isinstance_StructDtype_def)

lemma convert_entry_25: "convert_chunks_for_zarr (chunks entry_25) = Inr [10]"
  by (simp add: entry_25_def convert_defs)

subsection \<open>The chunk grid translation, when it returns\<close>

lemma convert_chunks_for_zarr_nonempty:
  assumes "convert_chunks_for_zarr tiled_chunks = Inr spec"
  shows "\<forall>tc \<in> set tiled_chunks. tc \<noteq> []"
proof
  fix tc assume "tc \<in> set tiled_chunks"
  then obtain k where k: "k < length tiled_chunks" "tiled_chunks ! k = tc"
    by (auto simp: in_set_conv_nth)
  from comprehension_Inr_nth [OF assms [unfolded convert_chunks_for_zarr_def] k(1)]
  have "map_sum id (min ZARR_BLOCK_SIZE) (py_max (tc @ [1])) = Inr (spec ! k)"
    using k(2) by simp
  then show "tc \<noteq> []"
    by (auto simp: py_max_def)
qed

lemma convert_chunks_for_zarr_bounds:
  assumes "convert_chunks_for_zarr tiled_chunks = Inr spec"
  shows "length spec = length tiled_chunks" and "\<forall>c \<in> set spec. 1 \<le> c \<and> c \<le> ZARR_BLOCK_SIZE"
proof -
  from convert_chunks_for_zarr_nonempty [OF assms]
  have "\<forall>tc \<in> set tiled_chunks. tc \<noteq> []" .
  from convert_chunks_for_zarr_Inr [OF this] assms
  have spec: "spec = map (\<lambda>tc. min ZARR_BLOCK_SIZE (max (Max (set tc)) 1)) tiled_chunks"
    by simp
  show "length spec = length tiled_chunks"
    unfolding spec by simp
  show "\<forall>c \<in> set spec. 1 \<le> c \<and> c \<le> ZARR_BLOCK_SIZE"
  proof
    fix c assume "c \<in> set spec"
    then obtain tc where "c = min ZARR_BLOCK_SIZE (max (Max (set tc)) 1)"
      unfolding spec by auto
    then show "1 \<le> c \<and> c \<le> ZARR_BLOCK_SIZE"
      using block_size_bounds [of "Max (set tc)"] by simp
  qed
qed

subsection \<open>The branches of the block route\<close>

lemma get_zarr_array_block:
  assumes "ArrayLike e" "parse_block b = Inr idx" "convert_chunks_for_zarr (chunks e) = Inr spec"
  shows "get_zarr_array enc tob url (Some b) e =
     (if \<not> (spec = [] \<and> idx = [0]) \<and> length spec \<noteq> length idx
      then ([], Inl (HTTPException HTTP_400_BAD_REQUEST (Inconsistent idx (shape e))))
      else (case read_block e idx spec of
              (calls, Inl er) \<Rightarrow> (calls, Inl er)
            | (calls, Inr a) \<Rightarrow>
                (calls, Inr \<lparr>content = Buffer (encode_block enc tob a),
                             status_code = 200, media_type = None\<rparr>)))"
  using assms unfolding get_zarr_array_def ArrayLike_def Let_def
  by auto

lemma get_zarr_array_parse_error:
  assumes "ArrayLike e" "parse_block b = Inl x"
  shows "get_zarr_array enc tob url (Some b) e = ([], Inl (Uncaught x))"
  using assms unfolding get_zarr_array_def ArrayLike_def Let_def
  by auto

lemma read_block_calls: "fst (read_block e idx spec) = [block_slices idx spec]"
  by (simp add: read_block_def Let_def split: sum.splits)

lemma read_block_raises:
  assumes "read e (block_slices idx spec) = Inl x"
  shows "read_block e idx spec =
     ([block_slices idx spec],
      Inl (if x = IndexError then HTTPException HTTP_400_BAD_REQUEST (OutOfRange idx)
           else Uncaught x))"
  using assms by (simp add: read_block_def Let_def)

lemma read_block_HTTPException:
  assumes "snd (read_block e idx spec) = Inl (HTTPException s d)"
  shows "read e (block_slices idx spec) = Inl IndexError \<and> s = HTTP_400_BAD_REQUEST
     \<and> d = OutOfRange idx"
  using assms by (auto simp: read_block_def Let_def split: sum.splits if_splits)

subsection \<open>The metadata routes\<close>

text \<open>
  C7. An array entry with a structured data type answers the group marker request with
  exactly \<open>{"zarr_format": 2}\<close> and status 200, and the array descriptor request with
  status 404. An array entry with a primitive data type answers the group marker request
  with status 404.
\<close>

theorem structured_array_is_group:
  "(structure_family e = array \<and> isinstance_StructDtype (data_type e) \<longrightarrow>
      (get_zarr_group_metadata e :: error + 'b Response) =
        Inr \<lparr>content = Json (JObject [(''zarr_format'', JInt 2)]),
             status_code = 200, media_type = None\<rparr>
      \<and> (get_zarr_array_metadata e :: error + 'b Response) =
        Inl (HTTPException HTTP_404_NOT_FOUND NoDetail))
   \<and> (structure_family e = array \<and> \<not> isinstance_StructDtype (data_type e) \<longrightarrow>
      (get_zarr_group_metadata e :: error + 'b Response) =
        Inl (HTTPException HTTP_404_NOT_FOUND NoDetail))"
  by (auto simp: get_zarr_group_metadata_def get_zarr_array_metadata_def
      isinstance_StructDtype_def split: DataType.splits)

theorem structured_array_is_group_witness:
  "get_zarr_group_metadata (entry_25\<lparr>data_type := StructDtype [MkField ''x'' ''<f8'', MkField ''y'' ''<i4'']\<rparr>)
     = (Inr \<lparr>content = Json (JObject [(''zarr_format'', JInt 2)]),
            status_code = 200, media_type = None\<rparr> :: error + unit Response)
   \<and> get_zarr_array_metadata (entry_25\<lparr>data_type := StructDtype [MkField ''x'' ''<f8'', MkField ''y'' ''<i4'']\<rparr>)
     = (Inl (HTTPException 404 NoDetail) :: error + unit Response)
   \<and> get_zarr_group_metadata entry_25 = (Inl (HTTPException 404 NoDetail) :: error + unit Response)"
  using structured_array_is_group [where ?'b = unit and e = "entry_25\<lparr>data_type := StructDtype [MkField ''x'' ''<f8'', MkField ''y'' ''<i4'']\<rparr>"]
    structured_array_is_group [where ?'b = unit and e = entry_25]
  by (simp add: entry_25_def isinstance_StructDtype_def HTTP_404_NOT_FOUND_def)

text \<open>
  C8. An attributes request against an array entry with a primitive data type is answered
  with status 404. Every other entry answers with its metadata mapping \<open>d\<close> as it is (the
  empty mapping when \<open>d\<close> is empty), whichever way the entry exposes it; so every response
  to the attributes request carries the entry's metadata mapping.
\<close>

theorem attrs_pass_through:
  assumes "metadata e = AsMethod d \<or> metadata e = AsProperty d"
  shows "(structure_family e = array \<and> \<not> isinstance_StructDtype (data_type e) \<longrightarrow>
            (get_zarr_attrs e :: error + 'b Response) =
              Inl (HTTPException HTTP_404_NOT_FOUND NoDetail))
       \<and> (\<not> (structure_family e = array \<and> \<not> isinstance_StructDtype (data_type e)) \<longrightarrow>
            (get_zarr_attrs e :: error + 'b Response) =
              Inr \<lparr>content = Json (JObject d), status_code = 200,
                   media_type = Some ''application/json''\<rparr>)
       \<and> (\<forall>resp :: 'b Response. get_zarr_attrs e = Inr resp \<longrightarrow>
              content resp = Json (JObject d) \<and> status_code resp = 200)"
  using assms
  by (auto simp: get_zarr_attrs_def call_metadata_def metadata_attr_def)

theorem attrs_pass_through_witness:
  "get_zarr_attrs (entry_25\<lparr>structure_family := container,
                             metadata := AsProperty [(''units'', JStr ''mm''), (''n'', JInt 3)]\<rparr>)
     = (Inr \<lparr>content = Json (JObject [(''units'', JStr ''mm''), (''n'', JInt 3)]),
            status_code = 200, media_type = Some ''application/json''\<rparr> :: error + unit Response)
   \<and> get_zarr_attrs (entry_25\<lparr>structure_family := table\<rparr>)
     = (Inr \<lparr>content = Json (JObject []), status_code = 200,
            media_type = Some ''application/json''\<rparr> :: error + unit Response)
   \<and> get_zarr_attrs entry_25 = (Inl (HTTPException 404 NoDetail) :: error + unit Response)"
proof -
  let ?c = "entry_25\<lparr>structure_family := container,
                      metadata := AsProperty [(''units'', JStr ''mm''), (''n'', JInt 3)]\<rparr>"
  let ?t = "entry_25\<lparr>structure_family := table\<rparr>"
  have c: "metadata ?c = AsMethod [(''units'', JStr ''mm''), (''n'', JInt 3)]
      \<or> metadata ?c = AsProperty [(''units'', JStr ''mm''), (''n'', JInt 3)]"
    by simp
  have t: "metadata ?t = AsMethod [] \<or> metadata ?t = AsProperty []"
    by (simp add: entry_25_def)
  have a: "metadata entry_25 = AsMethod [] \<or> metadata entry_25 = AsProperty []"
    by (simp add: entry_25_def)
  note group = attrs_pass_through [where ?'b = unit, THEN conjunct2, THEN conjunct1, rule_format]
  note prim = attrs_pass_through [where ?'b = unit, THEN conjunct1, rule_format]
  have "get_zarr_attrs ?c
      = (Inr \<lparr>content = Json (JObject [(''units'', JStr ''mm''), (''n'', JInt 3)]),
             status_code = 200, media_type = Some ''application/json''\<rparr> :: error + unit Response)"
    by (rule group [OF c]) simp
  moreover have "get_zarr_attrs ?t
      = (Inr \<lparr>content = Json (JObject []), status_code = 200,
             media_type = Some ''application/json''\<rparr> :: error + unit Response)"
    by (rule group [OF t]) simp
  moreover have "get_zarr_attrs entry_25
      = (Inl (HTTPException HTTP_404_NOT_FOUND NoDetail) :: error + unit Response)"
    by (rule prim [OF a]) (simp add: entry_25_def isinstance_StructDtype_def)
  ultimately show ?thesis
    by (simp only: HTTP_404_NOT_FOUND_def simp_thms)
qed

lemma parse_block_examples:
  "parse_block ''2'' = Inr [2]" "parse_block ''3'' = Inr [3]" "parse_block ''0'' = Inr [0]"
  "parse_block ''-1'' = Inr [- 1]" "parse_block ''1,2'' = Inr [1, 2]"
  "parse_block ''a'' = Inl ValueError" "parse_block ''1,,2'' = Inl ValueError"
  "parse_block '''' = Inl ValueError" "parse_block ''-2'' = Inr [- 2]"
  "parse_block [CHR 0x1C, CHR ''1''] = Inl ValueError"
  "parse_block '' 1 , +2,0_3'' = Inr [1, 2, 3]"
  by (simp_all add: parse_defs)

subsection \<open>The block route: rejections\<close>

text \<open>
  C4. A block request whose index has another length than the block shape is rejected with
  status 400, and the storage reader has not been called (the list of its calls is empty;
  the outcome is the exception alone, with no response). The one exception is an empty
  block shape addressed by the index \<open>[0]\<close>: the reader is then called once, with no slice,
  and what it returns is encoded and served with status 200.
\<close>

theorem block_index_length_check:
  fixes e :: "'a::zero Entry"
  assumes "ArrayLike e"
    and "parse_block b = Inr idx"
    and "convert_chunks_for_zarr (chunks e) = Inr spec"
    and "length idx \<noteq> length spec"
  shows "(\<not> (spec = [] \<and> idx = [0]) \<longrightarrow>
            get_zarr_array enc tob url (Some b) e =
              ([], Inl (HTTPException HTTP_400_BAD_REQUEST (Inconsistent idx (shape e)))))
       \<and> (spec = [] \<and> idx = [0] \<longrightarrow>
            fst (get_zarr_array enc tob url (Some b) e) = [[]]
            \<and> (\<forall>v. read e [] = Inr v \<longrightarrow>
                  snd (get_zarr_array enc tob url (Some b) e) =
                    Inr \<lparr>content = Buffer (encode_block enc tob (densify v)),
                         status_code = 200, media_type = None\<rparr>))"
proof (intro conjI impI)
  assume "\<not> (spec = [] \<and> idx = [0])"
  with assms(4) show "get_zarr_array enc tob url (Some b) e =
      ([], Inl (HTTPException HTTP_400_BAD_REQUEST (Inconsistent idx (shape e))))"
    by (simp add: get_zarr_array_block [OF assms(1-3)])
next
  assume scalar: "spec = [] \<and> idx = [0]"
  then have g: "get_zarr_array enc tob url (Some b) e =
      (case read_block e [0] [] of
         (calls, Inl er) \<Rightarrow> (calls, Inl er)
       | (calls, Inr a) \<Rightarrow>
           (calls, Inr \<lparr>content = Buffer (encode_block enc tob a),
                        status_code = 200, media_type = None\<rparr>))"
    by (simp add: get_zarr_array_block [OF assms(1-3)])
  have calls: "fst (read_block e [0] []) = [[]]"
    by (simp add: read_block_calls block_slices_def)
  then show "fst (get_zarr_array enc tob url (Some b) e) = [[]]"
    unfolding g by (auto split: prod.splits sum.splits)
  show "\<forall>v. read e [] = Inr v \<longrightarrow>
      snd (get_zarr_array enc tob url (Some b) e) =
        Inr \<lparr>content = Buffer (encode_block enc tob (densify v)),
             status_code = 200, media_type = None\<rparr>"
    unfolding g by (simp add: read_block_def block_slices_def padding_size_def)
qed

theorem block_index_length_check_witness:
  "get_zarr_array (\<lambda>a. None) row_major ''http://h/x'' (Some ''1,2'') entry_25
     = ([], Inl (HTTPException 400 (Inconsistent [1, 2] [25])))
   \<and> get_zarr_array (\<lambda>a. None) row_major ''http://h/x'' (Some ''0'')
        (entry_25\<lparr>chunks := [], shape := [], read := storage_read scalar_7\<rparr>)
     = ([[]], Inr \<lparr>content = Buffer [7], status_code = 200, media_type = None\<rparr>)"
proof -
  let ?s = "entry_25\<lparr>chunks := [], shape := [], read := storage_read scalar_7\<rparr>"
  let ?enc = "\<lambda>a :: int ndarray. None :: int list option"
  have al: "ArrayLike ?s"
    using ArrayLike_entry_25 by (simp add: ArrayLike_def)
  have cs: "convert_chunks_for_zarr (chunks ?s) = Inr []"
    by (simp add: convert_chunks_for_zarr_def)
  have rd: "read ?s [] = Inr (NDArray scalar_7)"
    by (simp add: storage_read_def slice_shape_def scalar_7_def)
  have "get_zarr_array ?enc row_major ''http://h/x'' (Some ''1,2'') entry_25
      = ([], Inl (HTTPException HTTP_400_BAD_REQUEST (Inconsistent [1, 2] (shape entry_25))))"
    using block_index_length_check [OF ArrayLike_entry_25 parse_block_examples(5) convert_entry_25]
    by simp
  moreover have "fst (get_zarr_array ?enc row_major ''http://h/x'' (Some ''0'') ?s) = [[]]"
    and "snd (get_zarr_array ?enc row_major ''http://h/x'' (Some ''0'') ?s) =
           Inr \<lparr>content = Buffer (encode_block ?enc row_major (densify (NDArray scalar_7))),
                status_code = 200, media_type = None\<rparr>"
    using block_index_length_check [OF al parse_block_examples(3) cs, of ?enc row_major "''http://h/x''"] rd
    by simp_all
  ultimately show ?thesis
    by (simp add: prod_eq_iff HTTP_400_BAD_REQUEST_def entry_25_def encode_block_def densify_def
        row_major_def scalar_7_def)
qed

text \<open>
  C5. A block parameter that is not a list of integers: \<^verbatim>\<open>int\<close> raises \<^verbatim>\<open>ValueError\<close>, which
  nothing in the handler catches. For \<open>block=a\<close> and for \<open>block=1,,2\<close> (an empty component)
  the handler ends with that exception, not with an \<^verbatim>\<open>HTTPException\<close> of status 400.
\<close>

theorem malformed_block_uncaught:
  "get_zarr_array (\<lambda>a. None) row_major ''http://h/x'' (Some ''a'') entry_25
     = ([], Inl (Uncaught ValueError))
   \<and> get_zarr_array (\<lambda>a. None) row_major ''http://h/x'' (Some ''1,,2'') entry_25
     = ([], Inl (Uncaught ValueError))"
  by (simp add: get_zarr_array_parse_error [OF ArrayLike_entry_25] parse_block_examples)

subsection \<open>The block route: exceptions of the storage reader\<close>

text \<open>
  C6. A block request with a well-formed index of the right length, for which the storage
  reader raises. An \<^verbatim>\<open>IndexError\<close> becomes an \<^verbatim>\<open>HTTPException\<close> of status 400. Any other
  exception leaves the handler as it is, uncaught, which a server reports as an internal
  error; it does not become an \<^verbatim>\<open>HTTPException\<close>. In both cases the reader was called
  once, with the slices of the block.
\<close>

theorem read_fault_mapping:
  fixes e :: "'a::zero Entry"
  assumes "ArrayLike e"
    and "parse_block b = Inr idx"
    and "convert_chunks_for_zarr (chunks e) = Inr spec"
    and "length idx = length spec"
    and "read e (block_slices idx spec) = Inl x"
  shows "(x = IndexError \<longrightarrow>
            get_zarr_array enc tob url (Some b) e =
              ([block_slices idx spec],
               Inl (HTTPException HTTP_400_BAD_REQUEST (OutOfRange idx))))
       \<and> (x \<noteq> IndexError \<longrightarrow>
            get_zarr_array enc tob url (Some b) e = ([block_slices idx spec], Inl (Uncaught x)))"
  using assms(4)
  by (simp add: get_zarr_array_block [OF assms(1-3)] read_block_raises [OF assms(5)])

theorem read_fault_mapping_witness:
  "get_zarr_array (\<lambda>a. None) row_major ''http://h/x'' (Some ''3'')
      (entry_25\<lparr>read := (\<lambda>slices. Inl IndexError)\<rparr>)
     = ([[(30, 40)]], Inl (HTTPException 400 (OutOfRange [3])))
   \<and> get_zarr_array (\<lambda>a. None) row_major ''http://h/x'' (Some ''2'')
      (entry_25\<lparr>read := (\<lambda>slices. Inl (Exception ''disk failure''))\<rparr>)
     = ([[(20, 30)]], Inl (Uncaught (Exception ''disk failure'')))"
proof -
  let ?i = "entry_25\<lparr>read := (\<lambda>slices. Inl IndexError)\<rparr>"
  let ?d = "entry_25\<lparr>read := (\<lambda>slices. Inl (Exception ''disk failure''))\<rparr>"
  let ?enc = "\<lambda>a :: int ndarray. None :: int list option"
  have al: "ArrayLike ?i" "ArrayLike ?d"
    using ArrayLike_entry_25 by (simp_all add: ArrayLike_def)
  have cs: "convert_chunks_for_zarr (chunks ?i) = Inr [10]"
    "convert_chunks_for_zarr (chunks ?d) = Inr [10]"
    using convert_entry_25 by simp_all
  have ri: "read ?i (block_slices [3] [10]) = Inl IndexError"
    and rd: "read ?d (block_slices [2] [10]) = Inl (Exception ''disk failure'')"
    by simp_all
  have l: "length [3 :: int] = length [10 :: int]" "length [2 :: int] = length [10 :: int]"
    by simp_all
  from read_fault_mapping [OF al(1) parse_block_examples(2) cs(1) l(1) ri,
      of ?enc row_major "''http://h/x''"]
    read_fault_mapping [OF al(2) parse_block_examples(1) cs(2) l(2) rd,
      of ?enc row_major "''http://h/x''"]
  show ?thesis
    by (simp add: block_slices_def HTTP_400_BAD_REQUEST_def)
qed

subsection \<open>The block route: negative coordinates\<close>

text \<open>
  C10. A block index of the right length with a negative coordinate: the handler does not
  check the sign. The storage reader is called once, with the slices
  \<open>slice(i * c, (i + 1) * c)\<close>, whose lower bound is negative at the negative coordinate.
  The request is not rejected by the handler's length check, and the outcome is what the
  reader makes of those slices: if the reader raises, an \<^verbatim>\<open>IndexError\<close> becomes status 400
  and any other exception leaves the handler uncaught; if the reader returns a value, that
  value is served with status 200, encoded as it is when no padding is due and padded by
  \<^verbatim>\<open>np.pad\<close> first otherwise. So the handler ends with an \<^verbatim>\<open>HTTPException\<close> only if the
  reader itself raises \<^verbatim>\<open>IndexError\<close>.
\<close>

theorem negative_index_forwarded:
  fixes e :: "'a::zero Entry"
  assumes "ArrayLike e"
    and "parse_block b = Inr idx"
    and "convert_chunks_for_zarr (chunks e) = Inr spec"
    and "length idx = length spec"
    and "k < length idx" and "idx ! k < 0"
    and "slices = map (\<lambda>(i, c). (i * c, (i + 1) * c)) (zip idx spec)"
  shows "fst (get_zarr_array enc tob url (Some b) e) = [slices]
       \<and> fst (slices ! k) < 0
       \<and> snd (get_zarr_array enc tob url (Some b) e)
           \<noteq> Inl (HTTPException HTTP_400_BAD_REQUEST (Inconsistent idx (shape e)))
       \<and> (\<forall>s d. snd (get_zarr_array enc tob url (Some b) e) = Inl (HTTPException s d) \<longrightarrow>
             read e slices = Inl IndexError)
       \<and> (\<forall>x. read e slices = Inl x \<longrightarrow>
             snd (get_zarr_array enc tob url (Some b) e) =
               Inl (if x = IndexError
                    then HTTPException HTTP_400_BAD_REQUEST (OutOfRange idx)
                    else Uncaught x))
       \<and> (\<forall>v. read e slices = Inr v \<and> sum_list (padding_size slices (shape e)) \<le> 0 \<longrightarrow>
             snd (get_zarr_array enc tob url (Some b) e) =
               Inr \<lparr>content = Buffer (encode_block enc tob (densify v)),
                    status_code = 200, media_type = None\<rparr>)
       \<and> (\<forall>v. read e slices = Inr v \<and> 0 < sum_list (padding_size slices (shape e)) \<longrightarrow>
             snd (get_zarr_array enc tob url (Some b) e) =
               (case np_pad (densify v) (padding_size slices (shape e)) of
                  Inl x \<Rightarrow> Inl (Uncaught x)
                | Inr padded \<Rightarrow>
                    Inr \<lparr>content = Buffer (encode_block enc tob padded),
                         status_code = 200, media_type = None\<rparr>))"
proof -
  have sl: "slices = block_slices idx spec"
    by (simp add: assms(7) block_slices_def)
  have g: "get_zarr_array enc tob url (Some b) e =
      (case read_block e idx spec of
         (calls, Inl er) \<Rightarrow> (calls, Inl er)
       | (calls, Inr a) \<Rightarrow>
           (calls, Inr \<lparr>content = Buffer (encode_block enc tob a),
                        status_code = 200, media_type = None\<rparr>))"
    using assms(4) by (simp add: get_zarr_array_block [OF assms(1-3)])
  have calls: "fst (get_zarr_array enc tob url (Some b) e) = [slices]"
    unfolding g sl using read_block_calls [of e idx spec]
    by (auto split: prod.splits sum.splits)
  have http: "read e slices = Inl IndexError \<and> d = OutOfRange idx"
    if "snd (get_zarr_array enc tob url (Some b) e) = Inl (HTTPException s d)" for s d
  proof -
    from that have "snd (read_block e idx spec) = Inl (HTTPException s d)"
      unfolding g by (auto split: prod.splits sum.splits)
    from read_block_HTTPException [OF this] show ?thesis by (simp add: sl)
  qed
  have raises: "snd (get_zarr_array enc tob url (Some b) e) =
      Inl (if x = IndexError then HTTPException HTTP_400_BAD_REQUEST (OutOfRange idx)
           else Uncaught x)"
    if "read e slices = Inl x" for x
    using that unfolding g sl by (simp add: read_block_raises)
  have plain: "snd (get_zarr_array enc tob url (Some b) e) =
      Inr \<lparr>content = Buffer (encode_block enc tob (densify v)),
           status_code = 200, media_type = None\<rparr>"
    if "read e slices = Inr v \<and> sum_list (padding_size slices (shape e)) \<le> 0" for v
    using that unfolding g sl by (simp add: read_block_def Let_def)
  have padded: "snd (get_zarr_array enc tob url (Some b) e) =
      (case np_pad (densify v) (padding_size slices (shape e)) of
         Inl x \<Rightarrow> Inl (Uncaught x)
       | Inr padded \<Rightarrow>
           Inr \<lparr>content = Buffer (encode_block enc tob padded),
                status_code = 200, media_type = None\<rparr>)"
    if "read e slices = Inr v \<and> 0 < sum_list (padding_size slices (shape e))" for v
    using that unfolding g sl by (simp add: read_block_def Let_def split: sum.splits)
  from convert_chunks_for_zarr_bounds(2) [OF assms(3)] assms(4,5)
  have "1 \<le> spec ! k" by simp
  with assms(6) have "idx ! k * spec ! k < 0"
    by (simp add: mult_less_0_iff)
  with assms(4,5) have neg: "fst (slices ! k) < 0"
    by (simp add: assms(7))
  have accepted: "snd (get_zarr_array enc tob url (Some b) e)
      \<noteq> Inl (HTTPException HTTP_400_BAD_REQUEST (Inconsistent idx (shape e)))"
  proof
    assume "snd (get_zarr_array enc tob url (Some b) e)
      = Inl (HTTPException HTTP_400_BAD_REQUEST (Inconsistent idx (shape e)))"
    from http [OF this] show False by simp
  qed
  show ?thesis
  proof (intro conjI allI impI)
    show "fst (get_zarr_array enc tob url (Some b) e) = [slices]"
      by (rule calls)
    show "fst (slices ! k) < 0"
      by (rule neg)
    show "snd (get_zarr_array enc tob url (Some b) e)
        \<noteq> Inl (HTTPException HTTP_400_BAD_REQUEST (Inconsistent idx (shape e)))"
      by (rule accepted)
  next
    fix s d
    assume "snd (get_zarr_array enc tob url (Some b) e) = Inl (HTTPException s d)"
    from http [OF this] show "read e slices = Inl IndexError" by (rule conjunct1)
  next
    fix x
    assume "read e slices = Inl x"
    then show "snd (get_zarr_array enc tob url (Some b) e) =
        Inl (if x = IndexError then HTTPException HTTP_400_BAD_REQUEST (OutOfRange idx)
             else Uncaught x)"
      by (rule raises)
  next
    fix v
    assume "read e slices = Inr v \<and> sum_list (padding_size slices (shape e)) \<le> 0"
    then show "snd (get_zarr_array enc tob url (Some b) e) =
        Inr \<lparr>content = Buffer (encode_block enc tob (densify v)),
             status_code = 200, media_type = None\<rparr>"
      by (rule plain)
  next
    fix v
    assume "read e slices = Inr v \<and> 0 < sum_list (padding_size slices (shape e))"
    then show "snd (get_zarr_array enc tob url (Some b) e) =
        (case np_pad (densify v) (padding_size slices (shape e)) of
           Inl x \<Rightarrow> Inl (Uncaught x)
         | Inr padded \<Rightarrow>
             Inr \<lparr>content = Buffer (encode_block enc tob padded),
                  status_code = 200, media_type = None\<rparr>)"
      by (rule padded)
  qed
qed

text \<open>
  The witness: block \<open>-2\<close> of the array of 25 integers. numpy reads the slice \<open>[-20, -10)\<close>
  from the end of the axis, so the reader returns the elements at \<open>5, ..., 14\<close>, and they are
  served: what the response holds is what the reader returned for the negative slice.
\<close>

theorem negative_index_forwarded_witness:
  "get_zarr_array (\<lambda>a. None) row_major ''http://h/x'' (Some ''-2'') entry_25
     = ([[(- 20, - 10)]],
        Inr \<lparr>content = Buffer [6, 7, 8, 9, 10, 11, 12, 13, 14, 15],
             status_code = 200, media_type = None\<rparr>)"
proof -
  let ?enc = "\<lambda>a :: int ndarray. None :: int list option"
  let ?v = "\<lparr>nd_shape = [10 :: int], nd_item = (\<lambda>idx :: int list. nd_item array_25 (
      map (\<lambda>((n, sl), i). clip n (fst sl) + i)
        (zip (zip [25 :: int] [(- 20 :: int, - 10 :: int)]) idx) @ drop 1 idx))\<rparr>"
  have sl: "[(- 20, - 10)] = map (\<lambda>(i, c). (i * c, (i + 1) * c)) (zip [- 2 :: int] [10 :: int])"
    by simp
  have len: "length [- 2 :: int] = length [10 :: int]"
    and k: "0 < length [- 2 :: int]" and neg: "[- 2 :: int] ! 0 < 0"
    by simp_all
  have rd: "read entry_25 [(- 20, - 10)] = Inr (NDArray ?v)"
    by (simp add: entry_25_def storage_read_def slice_shape_def clip_def array_25_def)
  have pads: "sum_list (padding_size [(- 20, - 10)] (shape entry_25)) \<le> 0"
    by (simp add: padding_size_def entry_25_def)
  note inst = negative_index_forwarded [OF ArrayLike_entry_25 parse_block_examples(9)
      convert_entry_25 len k neg sl, of ?enc row_major "''http://h/x''"]
  from inst have calls:
    "fst (get_zarr_array ?enc row_major ''http://h/x'' (Some ''-2'') entry_25) = [[(- 20, - 10)]]"
    by (rule conjunct1)
  have "snd (get_zarr_array ?enc row_major ''http://h/x'' (Some ''-2'') entry_25) =
      Inr \<lparr>content = Buffer (encode_block ?enc row_major (densify (NDArray ?v))),
           status_code = 200, media_type = None\<rparr>"
    by (rule inst [THEN conjunct2, THEN conjunct2, THEN conjunct2, THEN conjunct2,
          THEN conjunct2, THEN conjunct1, rule_format, OF conjI [OF rd pads]])
  moreover have "encode_block ?enc row_major (densify (NDArray ?v))
      = [6, 7, 8, 9, 10, 11, 12, 13, 14, 15]"
    by (simp add: encode_block_def densify_def row_major_def upto.simps array_25_def clip_def)
  ultimately show ?thesis
    using calls by (simp add: prod_eq_iff)
qed

subsection \<open>The listing route\<close>

lemma str_split_not_Nil: "str_split sep s \<noteq> []"
  by (induction s) (auto split: list.splits)

lemma hd_str_split: "hd (str_split sep s) = takeWhile (\<lambda>c. c \<noteq> sep) s"
proof (induction s)
  case Nil
  then show ?case by simp
next
  case (Cons c cs)
  then show ?case
    using str_split_not_Nil [of sep cs] by (auto split: list.splits)
qed

lemma str_rstrip_dropWhile: "str_rstrip ch s = rev (dropWhile (\<lambda>c. c = ch) (rev s))"
proof (induction s)
  case Nil
  then show ?case by simp
next
  case (Cons c cs)
  show ?case
  proof (cases "\<forall>x \<in> set cs. x = ch")
    case True
    then have "dropWhile (\<lambda>c. c = ch) (rev cs) = []" by simp
    moreover from True have "dropWhile (\<lambda>c. c = ch) (rev cs @ [c]) = dropWhile (\<lambda>c. c = ch) [c]"
      by (intro dropWhile_append2) simp
    ultimately show ?thesis
      using Cons by (simp add: Let_def)
  next
    case False
    then have "dropWhile (\<lambda>c. c = ch) (rev cs) \<noteq> []" by auto
    with Cons False show ?thesis
      by (simp add: dropWhile_append Let_def)
  qed
qed

lemma request_base:
  "str_rstrip CHR ''/'' (hd (str_split CHR ''?'' url))
     = rev (dropWhile (\<lambda>c. c = CHR ''/'') (rev (takeWhile (\<lambda>c. c \<noteq> CHR ''?'') url)))"
  by (simp only: hd_str_split str_rstrip_dropWhile)

text \<open>
  C9. Let \<open>base\<close> be the request's URL up to its first \<open>?\<close>, without trailing slashes. The
  listing is the JSON array of the URLs \<open>base/child\<close>, status 200, with no call of the
  storage reader; the children are, in this order, the keys of a container as
  \<^verbatim>\<open>keys_range(offset=0, limit=None)\<close> (or \<^verbatim>\<open>keys()\<close>) returns them, the columns of a table as
  declared, and the field names of a structured array as declared. No children give the
  empty JSON array.
\<close>

theorem listing_urls:
  fixes e :: "'a::zero Entry"
  assumes "base = rev (dropWhile (\<lambda>c. c = CHR ''/'') (rev (takeWhile (\<lambda>c. c \<noteq> CHR ''?'') url)))"
  shows "(structure_family e = container \<longrightarrow>
            get_zarr_array enc tob url block e =
              ([], Inr \<lparr>content = Json (JArray (map (\<lambda>child. JStr (base @ ''/'' @ child))
                            (case keys_range e of Some f \<Rightarrow> f 0 None | None \<Rightarrow> keys e))),
                        status_code = 200, media_type = Some ''application/json''\<rparr>))
       \<and> (structure_family e = table \<longrightarrow>
            get_zarr_array enc tob url block e =
              ([], Inr \<lparr>content = Json (JArray (map (\<lambda>child. JStr (base @ ''/'' @ child))
                            (columns e))),
                        status_code = 200, media_type = Some ''application/json''\<rparr>))
       \<and> (structure_family e = array \<and> data_type e = StructDtype fs \<longrightarrow>
            get_zarr_array enc tob url block e =
              ([], Inr \<lparr>content = Json (JArray (map (\<lambda>child. JStr (base @ ''/'' @ child))
                            (map field_name fs))),
                        status_code = 200, media_type = Some ''application/json''\<rparr>))"
  unfolding get_zarr_array_def request_base assms Let_def
  by (simp add: isinstance_StructDtype_def fields_of_def comp_def)

theorem listing_urls_witness:
  "get_zarr_array (\<lambda>a. None) row_major ''http://h/api/foo/?limit=5'' None
      (entry_25\<lparr>structure_family := container, keys := [''a'', ''b'']\<rparr>)
     = ([], Inr \<lparr>content = Json (JArray [JStr ''http://h/api/foo/a'', JStr ''http://h/api/foo/b'']),
               status_code = 200, media_type = Some ''application/json''\<rparr>)
   \<and> get_zarr_array (\<lambda>a. None) row_major ''http://h/api/foo'' None
      (entry_25\<lparr>structure_family := container, keys_range := Some (\<lambda>offset limit. [])\<rparr>)
     = ([], Inr \<lparr>content = Json (JArray []),
               status_code = 200, media_type = Some ''application/json''\<rparr>)
   \<and> get_zarr_array (\<lambda>a. None) row_major ''http://h/t'' None
      (entry_25\<lparr>structure_family := table, columns := [''x'', ''y'']\<rparr>)
     = ([], Inr \<lparr>content = Json (JArray [JStr ''http://h/t/x'', JStr ''http://h/t/y'']),
               status_code = 200, media_type = Some ''application/json''\<rparr>)
   \<and> get_zarr_array (\<lambda>a. None) row_major ''http://h/s//'' None
      (entry_25\<lparr>data_type := StructDtype [MkField ''u'' ''<f8'', MkField ''v'' ''<i4'']\<rparr>)
     = ([], Inr \<lparr>content = Json (JArray [JStr ''http://h/s/u'', JStr ''http://h/s/v'']),
               status_code = 200, media_type = Some ''application/json''\<rparr>)"
proof -
  let ?enc = "\<lambda>a :: int ndarray. None :: int list option"
  let ?c = "entry_25\<lparr>structure_family := container, keys := [''a'', ''b'']\<rparr>"
  let ?n = "entry_25\<lparr>structure_family := container, keys_range := Some (\<lambda>offset limit. [])\<rparr>"
  let ?t = "entry_25\<lparr>structure_family := table, columns := [''x'', ''y'']\<rparr>"
  let ?s = "entry_25\<lparr>data_type := StructDtype [MkField ''u'' ''<f8'', MkField ''v'' ''<i4'']\<rparr>"
  have b1: "''http://h/api/foo'' = rev (dropWhile (\<lambda>c. c = CHR ''/'')
      (rev (takeWhile (\<lambda>c. c \<noteq> CHR ''?'') ''http://h/api/foo/?limit=5'')))"
    and b2: "''http://h/api/foo'' = rev (dropWhile (\<lambda>c. c = CHR ''/'')
      (rev (takeWhile (\<lambda>c. c \<noteq> CHR ''?'') ''http://h/api/foo'')))"
    and b3: "''http://h/t'' = rev (dropWhile (\<lambda>c. c = CHR ''/'')
      (rev (takeWhile (\<lambda>c. c \<noteq> CHR ''?'') ''http://h/t'')))"
    and b4: "''http://h/s'' = rev (dropWhile (\<lambda>c. c = CHR ''/'')
      (rev (takeWhile (\<lambda>c. c \<noteq> CHR ''?'') ''http://h/s//'')))"
    by simp_all
  note c = listing_urls [OF b1, of ?c ?enc row_major None, THEN conjunct1, rule_format]
  note n = listing_urls [OF b2, of ?n ?enc row_major None, THEN conjunct1, rule_format]
  note t = listing_urls [OF b3, of ?t ?enc row_major None, THEN conjunct2, THEN conjunct1, rule_format]
  note s = listing_urls [OF b4, of ?s ?enc row_major None
      "[MkField ''u'' ''<f8'', MkField ''v'' ''<i4'']", THEN conjunct2, THEN conjunct2, rule_format]
  have "get_zarr_array ?enc row_major ''http://h/api/foo/?limit=5'' None ?c
      = ([], Inr \<lparr>content = Json (JArray [JStr ''http://h/api/foo/a'', JStr ''http://h/api/foo/b'']),
               status_code = 200, media_type = Some ''application/json''\<rparr>)"
    using c by (simp add: entry_25_def)
  moreover have "get_zarr_array ?enc row_major ''http://h/api/foo'' None ?n
      = ([], Inr \<lparr>content = Json (JArray []),
               status_code = 200, media_type = Some ''application/json''\<rparr>)"
    using n by (simp add: entry_25_def)
  moreover have "get_zarr_array ?enc row_major ''http://h/t'' None ?t
      = ([], Inr \<lparr>content = Json (JArray [JStr ''http://h/t/x'', JStr ''http://h/t/y'']),
               status_code = 200, media_type = Some ''application/json''\<rparr>)"
    using t by (simp add: entry_25_def)
  moreover have "get_zarr_array ?enc row_major ''http://h/s//'' None ?s
      = ([], Inr \<lparr>content = Json (JArray [JStr ''http://h/s/u'', JStr ''http://h/s/v'']),
               status_code = 200, media_type = Some ''application/json''\<rparr>)"
    using s by (simp add: entry_25_def)
  ultimately show ?thesis by (simp only: simp_thms)
qed

subsection \<open>The block route: padding\<close>

lemma dim_padded:
  fixes i c sh :: int
  assumes "0 \<le> i" "1 \<le> c" "i * c \<le> sh"
  shows "(min ((i + 1) * c) sh - i * c) + max 0 ((i + 1) * c - sh) = c"
proof -
  from assms(1,2) have s: "0 \<le> i * c" by simp
  have e: "(i + 1) * c = i * c + c" by (simp add: algebra_simps)
  from s assms(2,3) show ?thesis
    unfolding e by auto
qed

lemma np_pad_matching:
  assumes "length pads = length (nd_shape a)" and "\<forall>p \<in> set pads. p < 2 ^ 63"
  shows "np_pad a pads =
     Inr \<lparr>nd_shape = map2 (+) (nd_shape a) pads,
          nd_item = (\<lambda>idx. if in_bounds (nd_shape a) idx then nd_item a idx else 0)\<rparr>"
proof -
  have "(if length pads = 1 then replicate (length (nd_shape a)) (hd pads) else pads) = pads"
  proof (cases "length pads = 1")
    case True
    then obtain p where p: "pads = [p]" by (cases pads) auto
    with assms have "length (nd_shape a) = Suc 0" by simp
    with p show ?thesis by simp
  next
    case False
    then show ?thesis by simp
  qed
  moreover from assms(2) have "\<not> list_ex (\<lambda>p. 2 ^ 63 \<le> p) pads"
    by (auto simp: list_ex_iff)
  ultimately show ?thesis
    using assms(1) by (simp add: np_pad_def Let_def)
qed

lemma read_block_padded:
  fixes e :: "'a::zero Entry"
  assumes lens: "length idx = length spec" "length (shape e) = length spec"
    and pos: "\<forall>c \<in> set spec. 1 \<le> c \<and> c \<le> ZARR_BLOCK_SIZE"
    and ingrid: "\<forall>k < length spec. 0 \<le> idx ! k \<and> idx ! k * spec ! k \<le> shape e ! k"
    and rd: "read e (block_slices idx spec) = Inr v"
    and clipped: "nd_shape (densify v) =
        map (\<lambda>((start, stop), sh). min stop sh - start) (zip (block_slices idx spec) (shape e))"
  shows "\<exists>blk. read_block e idx spec = ([block_slices idx spec], Inr blk)
           \<and> nd_shape blk = spec
           \<and> (\<forall>j. in_bounds (nd_shape (densify v)) j \<longrightarrow> nd_item blk j = nd_item (densify v) j)
           \<and> (\<forall>j. in_bounds spec j \<and> \<not> in_bounds (nd_shape (densify v)) j \<longrightarrow> nd_item blk j = 0)"
proof -
  define slices where "slices = block_slices idx spec"
  define dims where "dims = nd_shape (densify v)"
  define pads where "pads = padding_size slices (shape e)"
  let ?n = "length spec"
  have len_slices: "length slices = ?n"
    using lens by (simp add: slices_def block_slices_def)
  have len_dims: "length dims = ?n"
    using lens len_slices by (simp add: dims_def clipped slices_def [symmetric])
  have len_pads: "length pads = ?n"
    using lens len_slices by (simp add: pads_def padding_size_def)
  have slice_k: "slices ! k = (idx ! k * spec ! k, (idx ! k + 1) * spec ! k)" if "k < ?n" for k
    using that lens by (simp add: slices_def block_slices_def)
  have dims_k: "dims ! k = min ((idx ! k + 1) * spec ! k) (shape e ! k) - idx ! k * spec ! k"
    if "k < ?n" for k
    using that lens len_slices slice_k [OF that]
    by (simp add: dims_def clipped slices_def [symmetric])
  have pads_k: "pads ! k = max 0 ((idx ! k + 1) * spec ! k - shape e ! k)" if "k < ?n" for k
    using that lens len_slices slice_k [OF that]
    by (simp add: pads_def padding_size_def)
  have sum_k: "dims ! k + pads ! k = spec ! k" if "k < ?n" for k
  proof -
    from that pos have "1 \<le> spec ! k" by simp
    moreover from that ingrid have "0 \<le> idx ! k" "idx ! k * spec ! k \<le> shape e ! k" by simp_all
    ultimately show ?thesis
      unfolding dims_k [OF that] pads_k [OF that] by (intro dim_padded)
  qed
  have total: "map2 (+) dims pads = spec"
    using len_dims len_pads sum_k by (intro nth_equalityI) simp_all
  have nonneg: "\<forall>p \<in> set pads. 0 \<le> p"
    by (auto simp: pads_def padding_size_def)
  have small: "\<forall>p \<in> set pads. p < 2 ^ 63"
  proof
    fix p assume "p \<in> set pads"
    then obtain k where k: "k < ?n" and p: "p = pads ! k"
      using len_pads by (auto simp: in_set_conv_nth)
    from k ingrid have "idx ! k * spec ! k \<le> shape e ! k" by simp
    moreover from k pos have c: "1 \<le> spec ! k" "spec ! k \<le> ZARR_BLOCK_SIZE" by simp_all
    ultimately have "pads ! k \<le> spec ! k"
      unfolding pads_k [OF k] by (simp add: algebra_simps)
    with c(2) show "p < 2 ^ 63"
      unfolding p by (simp add: ZARR_BLOCK_SIZE_def)
  qed
  show ?thesis
  proof (cases "sum_list pads > 0")
    case True
    let ?blk = "\<lparr>nd_shape = map2 (+) dims pads,
        nd_item = (\<lambda>j. if in_bounds dims j then nd_item (densify v) j else 0)\<rparr>"
    have "np_pad (densify v) pads = Inr ?blk"
      unfolding dims_def
      by (rule np_pad_matching [OF _ small]) (simp add: len_pads len_dims [unfolded dims_def])
    with True rd have "read_block e idx spec = ([slices], Inr ?blk)"
      by (simp add: read_block_def Let_def slices_def [symmetric] pads_def [symmetric])
    then show ?thesis
      using total by (intro exI [of _ ?blk]) (simp add: slices_def dims_def)
  next
    case False
    with nonneg have "sum_list pads = 0"
      by (simp add: sum_list_nonneg order.antisym)
    with nonneg have zero: "\<forall>p \<in> set pads. p = 0"
      by (simp add: sum_list_nonneg_eq_0_iff)
    have "dims = spec"
    proof (intro nth_equalityI)
      show "length dims = length spec" by (rule len_dims)
      fix k assume "k < length dims"
      with len_dims have k: "k < length spec" by simp
      with len_pads zero have "pads ! k = 0" by simp
      with sum_k [OF k] show "dims ! k = spec ! k" by simp
    qed
    moreover from False rd have "read_block e idx spec = ([slices], Inr (densify v))"
      by (simp add: read_block_def Let_def slices_def [symmetric] pads_def [symmetric])
    ultimately show ?thesis
      by (intro exI [of _ "densify v"]) (simp add: slices_def dims_def)
  qed
qed

text \<open>
  C1. Every block served should have the uniform block shape; the handler breaks this at a
  block past the end of the array. Shape \<open>[25]\<close> and chunks \<open>[[10, 10, 5]]\<close> sum up and give
  the block shape \<open>[10]\<close>; the storage reader returns exactly the requested slice clipped to
  the logical shape. The request for block \<open>3\<close> is
  not rejected: the reader is called with the range \<open>[30, 40)\<close> and returns the empty
  slice, the padding is \<open>max(0, 40 - 25) = 15\<close>, and the block served with status 200 has 15
  elements, all zero, where the uniform block shape has 10. (The handler's comment says
  that the padding is there so that all blocks have the same shape, and its
  \<^verbatim>\<open>except IndexError\<close> answers a block out of range with status 400.)
\<close>

theorem block_beyond_array_served:
  "shape entry_25 = [25] \<and> chunks entry_25 = [[10, 10, 5]]
   \<and> convert_chunks_for_zarr (chunks entry_25) = Inr [10]
   \<and> read entry_25 = storage_read array_25
   \<and> nd_shape array_25 = shape entry_25
   \<and> padding_size (block_slices [3] [10]) (shape entry_25) = [15]
   \<and> (\<exists>blk. read_block entry_25 [3] [10] = ([[(30, 40)]], Inr blk) \<and> nd_shape blk = [15])
   \<and> get_zarr_array (\<lambda>a. None) row_major ''http://h/x'' (Some ''3'') entry_25
        = ([[(30, 40)]],
           Inr \<lparr>content = Buffer [0, 0, 0, 0, 0, 0, 0, 0, 0, 0, 0, 0, 0, 0, 0],
                status_code = 200, media_type = None\<rparr>)"
proof (intro conjI)
  show "\<exists>blk. read_block entry_25 [3] [10] = ([[(30, 40)]], Inr blk) \<and> nd_shape blk = [15]"
    by (simp add: block_defs entry_25_def array_25_def)
  show "get_zarr_array (\<lambda>a. None) row_major ''http://h/x'' (Some ''3'') entry_25
        = ([[(30, 40)]],
           Inr \<lparr>content = Buffer [0, 0, 0, 0, 0, 0, 0, 0, 0, 0, 0, 0, 0, 0, 0],
                status_code = 200, media_type = None\<rparr>)"
    by (simp add: get_zarr_array_def parse_defs convert_defs isinstance_StructDtype_def
        block_defs entry_25_def array_25_def upto.simps)
qed (simp_all add: entry_25_def array_25_def convert_defs block_slices_def padding_size_def)

text \<open>
  Blocks that start inside the array are padded to the uniform block shape. Shape and
  chunks have the same number of dimensions and the block index has one coordinate per
  dimension, so the slices are \<open>[i * c, (i + 1) * c)\<close> for the block size \<open>c\<close> of each
  dimension. If every coordinate \<open>i\<close> is non-negative with \<open>i * c \<le> shape\<close>, and the storage
  reader returns for these slices a value with \<open>min(stop, shape) - start\<close> elements along
  each dimension (the slice clipped to the logical shape), then the handler calls the reader
  once, with these slices, and serves with status 200 the encoding of a block that has
  exactly the uniform block shape: the elements read are kept in place, and every other
  element of the block is zero.
\<close>

lemma block_padded_to_uniform_shape:
  fixes e :: "'a::zero Entry"
  assumes "ArrayLike e"
    and "length (shape e) = length (chunks e)"
    and "convert_chunks_for_zarr (chunks e) = Inr spec"
    and "parse_block b = Inr idx"
    and "length idx = length (chunks e)"
    and "\<forall>k < length idx. 0 \<le> idx ! k \<and> idx ! k * spec ! k \<le> shape e ! k"
    and "slices = map (\<lambda>(i, c). (i * c, (i + 1) * c)) (zip idx spec)"
    and "read e slices = Inr v"
    and "nd_shape (densify v) =
           map (\<lambda>((start, stop), sh). min stop sh - start) (zip slices (shape e))"
  shows "\<exists>blk. get_zarr_array enc tob url (Some b) e =
             ([slices],
              Inr \<lparr>content = Buffer (encode_block enc tob blk),
                   status_code = 200, media_type = None\<rparr>)
           \<and> nd_shape blk = spec
           \<and> (\<forall>j. in_bounds (nd_shape (densify v)) j \<longrightarrow> nd_item blk j = nd_item (densify v) j)
           \<and> (\<forall>j. in_bounds spec j \<and> \<not> in_bounds (nd_shape (densify v)) j \<longrightarrow> nd_item blk j = 0)"
proof -
  have sl: "slices = block_slices idx spec"
    by (simp add: assms(7) block_slices_def)
  note bounds = convert_chunks_for_zarr_bounds [OF assms(3)]
  have lens: "length idx = length spec" "length (shape e) = length spec"
    using assms(2,5) bounds(1) by simp_all
  have ingrid: "\<forall>k < length spec. 0 \<le> idx ! k \<and> idx ! k * spec ! k \<le> shape e ! k"
    using assms(6) lens(1) by simp
  from read_block_padded [OF lens bounds(2) ingrid assms(8,9) [unfolded sl]]
  obtain blk where blk: "read_block e idx spec = ([slices], Inr blk)"
    and props: "nd_shape blk = spec"
      "\<forall>j. in_bounds (nd_shape (densify v)) j \<longrightarrow> nd_item blk j = nd_item (densify v) j"
      "\<forall>j. in_bounds spec j \<and> \<not> in_bounds (nd_shape (densify v)) j \<longrightarrow> nd_item blk j = 0"
    unfolding sl by blast
  from lens(1) blk have "get_zarr_array enc tob url (Some b) e =
      ([slices],
       Inr \<lparr>content = Buffer (encode_block enc tob blk), status_code = 200, media_type = None\<rparr>)"
    by (simp add: get_zarr_array_block [OF assms(1,4,3)])
  with props show ?thesis by blast
qed

lemma block_padded_to_uniform_shape_example:
  "\<exists>blk. get_zarr_array (\<lambda>a. None) row_major ''http://h/x'' (Some ''2'') entry_25
            = ([[(20, 30)]],
               Inr \<lparr>content = Buffer (row_major blk), status_code = 200, media_type = None\<rparr>)
         \<and> nd_shape blk = [10]
         \<and> row_major blk = [21, 22, 23, 24, 25, 0, 0, 0, 0, 0]
         \<and> padding_size [(20, 30)] (shape entry_25) = [5]"
proof -
  let ?enc = "\<lambda>a :: int ndarray. None :: int list option"
  let ?v = "\<lparr>nd_shape = [5 :: int], nd_item = (\<lambda>idx :: int list. nd_item array_25 (
      map (\<lambda>((n, sl), i). clip n (fst sl) + i)
        (zip (zip [25 :: int] [(20 :: int, 30 :: int)]) idx) @ drop 1 idx))\<rparr>"
  have a2: "length (shape entry_25) = length (chunks entry_25)"
    and a5: "length [2 :: int] = length (chunks entry_25)"
    and a6: "\<forall>k < length [2 :: int].
        0 \<le> [2 :: int] ! k \<and> [2] ! k * [10] ! k \<le> shape entry_25 ! k"
    by (simp_all add: entry_25_def)
  have a7: "[(20, 30)] = map (\<lambda>(i, c). (i * c, (i + 1) * c)) (zip [2 :: int] [10 :: int])"
    by simp
  have a8: "read entry_25 [(20, 30)] = Inr (NDArray ?v)"
    by (simp add: entry_25_def storage_read_def slice_shape_def clip_def array_25_def)
  have a9: "nd_shape (densify (NDArray ?v)) =
      map (\<lambda>((start, stop), sh). min stop sh - start) (zip [(20, 30)] (shape entry_25))"
    by (simp add: densify_def entry_25_def)
  from block_padded_to_uniform_shape [OF ArrayLike_entry_25 a2 convert_entry_25
      parse_block_examples(1) a5 a6 a7 a8 a9, of ?enc row_major "''http://h/x''"]
  obtain blk where res: "get_zarr_array ?enc row_major ''http://h/x'' (Some ''2'') entry_25 =
        ([[(20, 30)]],
         Inr \<lparr>content = Buffer (row_major blk), status_code = 200, media_type = None\<rparr>)"
    and shp: "nd_shape blk = [10]"
    and kept: "\<And>j. in_bounds [5] j \<Longrightarrow> nd_item blk j = nd_item ?v j"
    and zero: "\<And>j. in_bounds [10] j \<Longrightarrow> \<not> in_bounds [5] j \<Longrightarrow> nd_item blk j = 0"
    by (auto simp: encode_block_def densify_def)
  have "row_major blk = [21, 22, 23, 24, 25, 0, 0, 0, 0, 0]"
    by (simp add: row_major_def shp upto.simps kept zero in_bounds_def array_25_def clip_def)
  moreover have "padding_size [(20, 30)] (shape entry_25) = [5]"
    by (simp add: padding_size_def entry_25_def)
  ultimately show ?thesis
    using res shp by blast
qed

subsection \<open>Dimensions of length zero\<close>

text \<open>
  C3. A dimension with no chunk entries should get block size 1, and block \<open>0\<close> one encoded
  element; the code raises instead. For shape \<open>[0]\<close> and a chunk specification with no
  entry for the dimension, \<^verbatim>\<open>max(*tc, 1)\<close> is \<^verbatim>\<open>max(1)\<close>, a \<^verbatim>\<open>TypeError\<close>. The translation
  returns no block size, where the docstring asks for a size of at least 1; the block
  request \<open>0\<close> ends with the uncaught exception before any read; and the array descriptor
  request ends with status 500.
\<close>

theorem no_chunk_entries_raises:
  "shape entry_no_chunks = [0] \<and> chunks entry_no_chunks = [[]]
   \<and> convert_chunks_for_zarr (chunks entry_no_chunks) = Inl TypeError
   \<and> get_zarr_array (\<lambda>a. None) row_major ''http://h/x'' (Some ''0'') entry_no_chunks
        = ([], Inl (Uncaught TypeError))
   \<and> (get_zarr_array_metadata entry_no_chunks :: error + unit Response)
        = Inl (HTTPException 500 (ErrArg TypeError))"
  by (simp add: entry_no_chunks_def entry_25_def get_zarr_array_def get_zarr_array_metadata_def
      parse_defs convert_defs isinstance_StructDtype_def HTTP_500_INTERNAL_SERVER_ERROR_def)

lemma Max_all_zero:
  assumes "tc \<noteq> []" "\<forall>x \<in> set tc. x = (0 :: int)"
  shows "Max (set tc) = 0"
proof -
  from assms have "set tc = {0}"
    by (cases tc) auto
  then show ?thesis by simp
qed

text \<open>
  A dimension of length zero that has a chunk entry. Every dimension of the chunk
  specification has an entry, and the entries of dimension \<open>k\<close> are all \<open>0\<close> (as in shape
  \<open>[0]\<close> with chunks \<open>[[0]]\<close>). Then the translation returns block size \<open>1\<close> for dimension
  \<open>k\<close>. For such an entry of shape \<open>[0]\<close> with one dimension, if the storage reader returns
  an empty value for the range \<open>[0, 1)\<close>, the block request \<open>0\<close> calls the reader with that
  range and serves with status 200 the encoding of a block of one element, which is zero:
  the padding.
\<close>

lemma zero_length_dimension:
  fixes e :: "'a::zero Entry"
  assumes "\<forall>tc \<in> set (chunks e). tc \<noteq> []"
    and "k < length (chunks e)"
    and "\<forall>x \<in> set (chunks e ! k). x = 0"
  shows "(\<exists>spec. convert_chunks_for_zarr (chunks e) = Inr spec \<and> spec ! k = 1)
       \<and> (ArrayLike e \<and> shape e = [0] \<and> length (chunks e) = 1 \<and> parse_block b = Inr [0]
            \<and> read e [(0, 1)] = Inr v \<and> nd_shape (densify v) = [0] \<longrightarrow>
          (\<exists>blk. get_zarr_array enc tob url (Some b) e =
                   ([[(0, 1)]],
                    Inr \<lparr>content = Buffer (encode_block enc tob blk),
                         status_code = 200, media_type = None\<rparr>)
                 \<and> nd_shape blk = [1] \<and> nd_item blk [0] = 0))"
proof (intro conjI impI)
  let ?g = "\<lambda>tc. min ZARR_BLOCK_SIZE (max (Max (set tc)) 1)"
  have conv: "convert_chunks_for_zarr (chunks e) = Inr (map ?g (chunks e))"
    using assms(1) by (rule convert_chunks_for_zarr_Inr)
  from assms(1,2) have ne: "chunks e ! k \<noteq> []" by simp
  from ne assms(3) have "Max (set (chunks e ! k)) = 0" by (rule Max_all_zero)
  then have one: "?g (chunks e ! k) = 1"
    by (simp add: ZARR_BLOCK_SIZE_def)
  with assms(2) have k: "map ?g (chunks e) ! k = 1" by simp
  with conv show "\<exists>spec. convert_chunks_for_zarr (chunks e) = Inr spec \<and> spec ! k = 1"
    by blast
  assume h: "ArrayLike e \<and> shape e = [0] \<and> length (chunks e) = 1 \<and> parse_block b = Inr [0]
      \<and> read e [(0, 1)] = Inr v \<and> nd_shape (densify v) = [0]"
  with assms(2) have k0: "k = 0" by simp
  from h obtain tc where tc: "chunks e = [tc]"
    by (cases "chunks e") auto
  with conv k k0 have spec: "convert_chunks_for_zarr (chunks e) = Inr [1]" by simp
  have sl: "block_slices [0] [1] = [(0, 1)]"
    by (simp add: block_slices_def)
  have lens: "length [0 :: int] = length [1 :: int]" "length (shape e) = length [1 :: int]"
    using h by simp_all
  have pos: "\<forall>c \<in> set [1 :: int]. 1 \<le> c \<and> c \<le> ZARR_BLOCK_SIZE"
    by (simp add: ZARR_BLOCK_SIZE_def)
  have ingrid: "\<forall>k < length [1 :: int]. 0 \<le> [0 :: int] ! k \<and> [0] ! k * [1] ! k \<le> shape e ! k"
    using h by simp
  have rd: "read e (block_slices [0] [1]) = Inr v"
    using h by (simp add: sl)
  have clipped: "nd_shape (densify v) =
      map (\<lambda>((start, stop), sh). min stop sh - start) (zip (block_slices [0] [1]) (shape e))"
    using h by (simp add: sl)
  from read_block_padded [OF lens pos ingrid rd clipped]
  obtain blk where blk: "read_block e [0] [1] = ([[(0, 1)]], Inr blk)"
    and shp: "nd_shape blk = [1]"
    and zero: "\<forall>j. in_bounds [1] j \<and> \<not> in_bounds (nd_shape (densify v)) j \<longrightarrow> nd_item blk j = 0"
    unfolding sl by blast
  from h zero have "nd_item blk [0] = 0"
    by (simp add: in_bounds_def)
  moreover from h blk have "get_zarr_array enc tob url (Some b) e =
      ([[(0, 1)]],
       Inr \<lparr>content = Buffer (encode_block enc tob blk), status_code = 200, media_type = None\<rparr>)"
    by (simp add: get_zarr_array_block [OF _ _ spec])
  ultimately show "\<exists>blk. get_zarr_array enc tob url (Some b) e =
                   ([[(0, 1)]],
                    Inr \<lparr>content = Buffer (encode_block enc tob blk),
                         status_code = 200, media_type = None\<rparr>)
                 \<and> nd_shape blk = [1] \<and> nd_item blk [0] = 0"
    using shp by blast
qed

lemma zero_length_dimension_example:
  "convert_chunks_for_zarr (chunks entry_0) = Inr [1]
   \<and> (\<exists>blk. get_zarr_array (\<lambda>a. None) row_major ''http://h/x'' (Some ''0'') entry_0
              = ([[(0, 1)]],
                 Inr \<lparr>content = Buffer (row_major blk), status_code = 200, media_type = None\<rparr>)
            \<and> nd_shape blk = [1] \<and> row_major blk = [0])"
proof -
  let ?enc = "\<lambda>a :: int ndarray. None :: int list option"
  let ?v = "\<lparr>nd_shape = [0 :: int], nd_item = (\<lambda>idx :: int list. nd_item array_0 (
      map (\<lambda>((n, sl), i). clip n (fst sl) + i) (zip (zip [0 :: int] [(0 :: int, 1 :: int)]) idx)
        @ drop 1 idx))\<rparr>"
  have c: "chunks entry_0 = [[0]]"
    by (simp add: entry_0_def)
  have a1: "\<forall>tc \<in> set (chunks entry_0). tc \<noteq> []"
    and a2: "0 < length (chunks entry_0)"
    and a3: "\<forall>x \<in> set (chunks entry_0 ! 0). x = 0"
    by (simp_all add: c)
  have al: "ArrayLike entry_0"
    using ArrayLike_entry_25 by (simp add: ArrayLike_def entry_0_def)
  have rd: "read entry_0 [(0, 1)] = Inr (NDArray ?v)"
    by (simp add: entry_0_def storage_read_def slice_shape_def clip_def array_0_def)
  have h: "ArrayLike entry_0 \<and> shape entry_0 = [0] \<and> length (chunks entry_0) = 1
      \<and> parse_block ''0'' = Inr [0] \<and> read entry_0 [(0, 1)] = Inr (NDArray ?v)
      \<and> nd_shape (densify (NDArray ?v)) = [0]"
    using al rd by (simp add: c parse_block_examples densify_def entry_0_def)
  note inst = zero_length_dimension [OF a1 a2 a3, of "''0''" "NDArray ?v" ?enc row_major "''http://h/x''"]
  from inst [THEN conjunct1] have conv: "convert_chunks_for_zarr (chunks entry_0) = Inr [1]"
    by (auto simp: c convert_defs)
  from inst [THEN conjunct2, rule_format, OF h]
  obtain blk where res: "get_zarr_array ?enc row_major ''http://h/x'' (Some ''0'') entry_0 =
        ([[(0, 1)]],
         Inr \<lparr>content = Buffer (row_major blk), status_code = 200, media_type = None\<rparr>)"
    and shp: "nd_shape blk = [1]" and z: "nd_item blk [0] = 0"
    by (auto simp: encode_block_def)
  have "row_major blk = [0]"
    by (simp add: row_major_def shp upto.simps z)
  with conv res shp show ?thesis by blast
qed

end
